theory Spec2Isabelle
  imports Main "HOL-Library.Word" "HOL-Library.AList"
begin

unbundle bit_operations_syntax

section \<open>The Go library the plugins call\<close>

text \<open>
  A Go string is a sequence of bytes, here a \<open>string\<close>. The plugins call functions of
  the packages \<open>strings\<close>, \<open>net\<close> and \<open>net/url\<close>, which are not part of the repository.
  They are taken as parameters, collected in the record \<open>GoLib\<close>, so that every general
  statement below holds for whatever these functions compute (Unicode case mapping
  and white space included).

  \<^item> \<open>net_ParseIP\<close> returns \<open>None\<close> for \<open>nil\<close>;
  \<^item> \<open>net_ParseCIDR\<close> returns the \<open>*IPNet\<close> result; \<open>isPrivateIP\<close> discards the error and
    calls it only on five well-formed literals;
  \<^item> \<open>url_Parse\<close> returns \<open>None\<close> when \<open>err != nil\<close>, and otherwise the two fields of
    \<open>*url.URL\<close> that the URL plugin reads.
\<close>

type_synonym byte = "8 word"

type_synonym IP = "byte list"

type_synonym IPMask = "byte list"

record IPNet =
  IP :: IP
  Mask :: IPMask

record URL =
  Scheme :: string
  Host :: string

record GoLib =
  strings_ToLower :: "string \<Rightarrow> string"
  strings_TrimSpace :: "string \<Rightarrow> string"
  strings_EqualFold :: "string \<Rightarrow> string \<Rightarrow> bool"
  net_ParseIP :: "string \<Rightarrow> IP option"
  net_ParseCIDR :: "string \<Rightarrow> IPNet"
  url_Parse :: "string \<Rightarrow> URL option"

subsection \<open>Methods of \<open>net.IP\<close> and \<open>net.IPNet\<close> on byte slices\<close>

text \<open>
  \<open>net.IP\<close> is a byte slice of length 4 or 16. \<open>To4\<close>, \<open>To16\<close> and \<open>Contains\<close> are
  byte-level functions of the standard library, written out here; \<open>None\<close> is \<open>nil\<close>.
\<close>

definition v4InV6Prefix :: "byte list" where
  "v4InV6Prefix = [0, 0, 0, 0, 0, 0, 0, 0, 0, 0, 0xff, 0xff]"

definition IPv4 :: "byte \<Rightarrow> byte \<Rightarrow> byte \<Rightarrow> byte \<Rightarrow> IP" where
  "IPv4 a b c d = v4InV6Prefix @ [a, b, c, d]"

definition isZeros :: "byte list \<Rightarrow> bool" where
  "isZeros p = list_all (\<lambda>b. b = 0) p"

definition To4 :: "IP \<Rightarrow> IP option" where
  "To4 ip =
     (if length ip = 4 then Some ip
      else if length ip = 16 \<and> isZeros (take 10 ip) \<and> ip ! 10 = 0xff \<and> ip ! 11 = 0xff
      then Some (drop 12 ip)
      else None)"

definition To16 :: "IP \<Rightarrow> IP option" where
  "To16 ip =
     (if length ip = 4 then Some (IPv4 (ip ! 0) (ip ! 1) (ip ! 2) (ip ! 3))
      else if length ip = 16 then Some ip
      else None)"

text \<open>\<open>networkNumberAndMask\<close>; the result \<open>(nil, nil)\<close> is \<open>([], [])\<close>.\<close>

definition networkNumberAndMask :: "IPNet \<Rightarrow> IP \<times> IPMask" where
  "networkNumberAndMask n =
     (let ip = (case To4 (IP n) of Some x \<Rightarrow> x | None \<Rightarrow> IP n)
      in if To4 (IP n) = None \<and> length ip \<noteq> 16 then ([], [])
         else if length (Mask n) = 4
              then (if length ip \<noteq> 4 then ([], []) else (ip, Mask n))
         else if length (Mask n) = 16
              then (if length ip = 4 then (ip, drop 12 (Mask n)) else (ip, Mask n))
         else ([], []))"

text \<open>The loop of \<open>Contains\<close>: false at the first byte that differs under the mask.\<close>

fun masked_equal :: "IP \<Rightarrow> IPMask \<Rightarrow> IP \<Rightarrow> bool" where
  "masked_equal (a # nn) (b # m) (c # ip) =
     (if a AND b \<noteq> c AND b then False else masked_equal nn m ip)"
| "masked_equal _ _ _ = True"

definition Contains :: "IPNet \<Rightarrow> IP \<Rightarrow> bool" where
  "Contains n ip =
     (let (nn, m) = networkNumberAndMask n;
          ip' = (case To4 ip of Some x \<Rightarrow> x | None \<Rightarrow> ip)
      in if length ip' \<noteq> length nn then False else masked_equal nn m ip')"

section \<open>Errors\<close>

text \<open>
  An error made by \<open>fmt.Errorf\<close> is kept as its format string and its arguments.
  \<open>fmt_v_strings\<close> is what the verb \<open>%v\<close> prints for a \<open>[]string\<close>: the elements
  separated by one space, in square brackets.
\<close>

datatype fmt_arg = ArgStr string | ArgStrs "string list" | ArgBool bool | ArgInt int | ArgErr error
  and error = Errorf string "fmt_arg list"

fun join_space :: "string list \<Rightarrow> string" where
  "join_space [] = []"
| "join_space [x] = x"
| "join_space (x # y # ys) = x @ '' '' @ join_space (y # ys)"

definition fmt_v_strings :: "string list \<Rightarrow> string" where
  "fmt_v_strings xs = ''['' @ join_space xs @ '']''"

section \<open>The plugin interface\<close>

text \<open>
  \<open>ValidationPlugin\<close> is the Go interface: a value with a \<open>Validate\<close> method, which
  returns (handled, error) with \<open>None\<close> for \<open>nil\<close>, and a \<open>Name\<close> method.
\<close>

record ValidationPlugin =
  Validate :: "string \<Rightarrow> string \<Rightarrow> bool \<times> error option"
  Name :: string

section \<open>BooleanValidationPlugin\<close>

record BooleanValidationPlugin =
  Key :: string
  AcceptedValues :: "string list"
  Standardize :: bool

text \<open>The loop over \<open>p.AcceptedValues\<close>: \<open>valid\<close> becomes true at the first match.\<close>

fun boolean_valid :: "GoLib \<Rightarrow> string \<Rightarrow> string list \<Rightarrow> bool" where
  "boolean_valid lib normalizedValue [] = False"
| "boolean_valid lib normalizedValue (accepted # rest) =
     (if normalizedValue = strings_ToLower lib accepted then True
      else boolean_valid lib normalizedValue rest)"

definition BooleanValidationPlugin_Validate ::
  "GoLib \<Rightarrow> BooleanValidationPlugin \<Rightarrow> string \<Rightarrow> string \<Rightarrow> bool \<times> error option" where
  "BooleanValidationPlugin_Validate lib p key value =
     (if key \<noteq> BooleanValidationPlugin.Key p then (False, None)
      else
        let normalizedValue = strings_ToLower lib (strings_TrimSpace lib value);
            valid = boolean_valid lib normalizedValue (AcceptedValues p)
        in if \<not> valid
           then (True, Some (Errorf ''value for key %q must be a boolean (accepted values: %v)''
                               [ArgStr key, ArgStrs (AcceptedValues p)]))
           else if Standardize p then (True, None)
           else (True, None))"

definition BooleanValidationPlugin_Name :: "BooleanValidationPlugin \<Rightarrow> string" where
  "BooleanValidationPlugin_Name p = ''BooleanValidationPlugin''"

section \<open>EnumValidationPlugin\<close>

record EnumValidationPlugin =
  Key :: string
  AllowedValues :: "string list"
  CaseSensitive :: bool

text \<open>The loop over \<open>p.AllowedValues\<close>, which returns at the first match.\<close>

fun enum_match :: "GoLib \<Rightarrow> bool \<Rightarrow> string \<Rightarrow> string list \<Rightarrow> bool" where
  "enum_match lib cs value [] = False"
| "enum_match lib cs value (allowed # rest) =
     (if cs then (if value = allowed then True else enum_match lib cs value rest)
      else (if strings_EqualFold lib value allowed then True
            else enum_match lib cs value rest))"

definition EnumValidationPlugin_Validate ::
  "GoLib \<Rightarrow> EnumValidationPlugin \<Rightarrow> string \<Rightarrow> string \<Rightarrow> bool \<times> error option" where
  "EnumValidationPlugin_Validate lib p key value =
     (if key \<noteq> EnumValidationPlugin.Key p then (False, None)
      else if enum_match lib (CaseSensitive p) value (AllowedValues p) then (True, None)
      else (True, Some (Errorf ''value for key %q must be one of %v''
                          [ArgStr key, ArgStrs (AllowedValues p)])))"

definition EnumValidationPlugin_Name :: "EnumValidationPlugin \<Rightarrow> string" where
  "EnumValidationPlugin_Name p = ''EnumValidationPlugin''"

section \<open>IPAddressValidationPlugin\<close>

record IPAddressValidationPlugin =
  Key :: string
  AllowedIPVersions :: "string list"
  MustBePrivate :: bool

text \<open>
  The loop over \<open>p.AllowedIPVersions\<close> with its \<open>switch\<close> on the lower-cased version:
  a version other than \<open>ipv4\<close> and \<open>ipv6\<close> matches no case.
\<close>

fun ip_version_valid :: "GoLib \<Rightarrow> IP \<Rightarrow> string list \<Rightarrow> bool" where
  "ip_version_valid lib ip [] = False"
| "ip_version_valid lib ip (version # rest) =
     (let v = strings_ToLower lib version;
          validVersion =
            (if v = ''ipv4'' then To4 ip \<noteq> None
             else if v = ''ipv6'' then To16 ip \<noteq> None \<and> To4 ip = None
             else False)
      in if validVersion then True else ip_version_valid lib ip rest)"

definition privateCIDRs :: "string list" where
  "privateCIDRs = [''10.0.0.0/8'', ''172.16.0.0/12'', ''192.168.0.0/16'', ''::1/128'', ''fc00::/7'']"

fun any_block_contains :: "IPNet list \<Rightarrow> IP \<Rightarrow> bool" where
  "any_block_contains [] ip = False"
| "any_block_contains (block # rest) ip =
     (if Contains block ip then True else any_block_contains rest ip)"

definition isPrivateIP :: "GoLib \<Rightarrow> IP \<Rightarrow> bool" where
  "isPrivateIP lib ip =
     (let privateIPBlocks = map (net_ParseCIDR lib) privateCIDRs
      in any_block_contains privateIPBlocks ip)"

definition IPAddressValidationPlugin_Validate ::
  "GoLib \<Rightarrow> IPAddressValidationPlugin \<Rightarrow> string \<Rightarrow> string \<Rightarrow> bool \<times> error option" where
  "IPAddressValidationPlugin_Validate lib p key value =
     (if key \<noteq> IPAddressValidationPlugin.Key p then (False, None)
      else case net_ParseIP lib (strings_TrimSpace lib value) of
        None \<Rightarrow> (True, Some (Errorf ''value for key %q must be a valid IP address'' [ArgStr key]))
      | Some ip \<Rightarrow>
          if length (AllowedIPVersions p) > 0 \<and> \<not> ip_version_valid lib ip (AllowedIPVersions p)
          then (True, Some (Errorf ''value for key %q must be one of the following IP versions: %v''
                              [ArgStr key, ArgStrs (AllowedIPVersions p)]))
          else if MustBePrivate p \<and> \<not> isPrivateIP lib ip
          then (True, Some (Errorf ''value for key %q must be a private IP address'' [ArgStr key]))
          else (True, None))"

definition IPAddressValidationPlugin_Name :: "IPAddressValidationPlugin \<Rightarrow> string" where
  "IPAddressValidationPlugin_Name p = ''IPAddressValidationPlugin''"

section \<open>URLValidationPlugin\<close>

record URLValidationPlugin =
  Key :: string
  AllowedSchemes :: "string list"

text \<open>The loop over \<open>p.AllowedSchemes\<close>: \<open>validScheme\<close> becomes true at the first match.\<close>

fun url_scheme_valid :: "GoLib \<Rightarrow> string \<Rightarrow> string list \<Rightarrow> bool" where
  "url_scheme_valid lib parsedScheme [] = False"
| "url_scheme_valid lib parsedScheme (scheme # rest) =
     (if strings_EqualFold lib parsedScheme scheme then True
      else url_scheme_valid lib parsedScheme rest)"

definition URLValidationPlugin_Validate ::
  "GoLib \<Rightarrow> URLValidationPlugin \<Rightarrow> string \<Rightarrow> string \<Rightarrow> bool \<times> error option" where
  "URLValidationPlugin_Validate lib p key value =
     (if key \<noteq> URLValidationPlugin.Key p then (False, None)
      else case url_Parse lib value of
        None \<Rightarrow> (True, Some (Errorf ''value for key %q must be a valid URL'' [ArgStr key]))
      | Some parsedURL \<Rightarrow>
          if Scheme parsedURL = '''' \<or> Host parsedURL = ''''
          then (True, Some (Errorf ''value for key %q must be a valid URL'' [ArgStr key]))
          else if length (AllowedSchemes p) > 0
                  \<and> \<not> url_scheme_valid lib (Scheme parsedURL) (AllowedSchemes p)
          then (True, Some (Errorf ''URL scheme for key %q must be one of %v''
                              [ArgStr key, ArgStrs (AllowedSchemes p)]))
          else (True, None))"

definition URLValidationPlugin_Name :: "URLValidationPlugin \<Rightarrow> string" where
  "URLValidationPlugin_Name p = ''URLValidationPlugin''"

section \<open>Config and Validator\<close>

text \<open>
  \<open>Config.Logger\<close> is a \<open>*logrus.Logger\<close>: \<open>None\<close> is \<open>nil\<close>, and of a logger only the
  level that \<open>ValidateDotEnv\<close> sets is kept. What the engine does with the logger and
  with the plugins is recorded as a list of events, the calls in the order made.
\<close>

datatype Level = PanicLevel | FatalLevel | ErrorLevel | WarnLevel | InfoLevel | DebugLevel | TraceLevel

record Config =
  RequireQuotes :: bool
  Verbose :: bool
  Logger :: "Level option"
  Plugins :: "ValidationPlugin list"

text \<open>
  \<open>requiredKeys\<close> is a \<open>map[string]bool\<close>, kept as an association list with distinct keys:
  the ledger of which required keys have been seen. Go leaves the order in which
  \<open>range\<close> visits a map open; the order of the list stands for it, and no statement
  below depends on it.
\<close>

record Validator =
  config :: Config
  requiredKeys :: "(string \<times> bool) list"
  plugins :: "ValidationPlugin list"

datatype event =
    PluginCall nat string string
  | Logger_Infof string "fmt_arg list"
  | Logger_Errorf string "fmt_arg list"
  | Logger_Error string

text \<open>The four built-in plugins as values of the interface.\<close>

definition URLValidationPlugin_iface :: "GoLib \<Rightarrow> URLValidationPlugin \<Rightarrow> ValidationPlugin" where
  "URLValidationPlugin_iface lib p =
     \<lparr>Validate = URLValidationPlugin_Validate lib p, Name = URLValidationPlugin_Name p\<rparr>"

definition EnumValidationPlugin_iface :: "GoLib \<Rightarrow> EnumValidationPlugin \<Rightarrow> ValidationPlugin" where
  "EnumValidationPlugin_iface lib p =
     \<lparr>Validate = EnumValidationPlugin_Validate lib p, Name = EnumValidationPlugin_Name p\<rparr>"

definition BooleanValidationPlugin_iface ::
  "GoLib \<Rightarrow> BooleanValidationPlugin \<Rightarrow> ValidationPlugin" where
  "BooleanValidationPlugin_iface lib p =
     \<lparr>Validate = BooleanValidationPlugin_Validate lib p, Name = BooleanValidationPlugin_Name p\<rparr>"

definition IPAddressValidationPlugin_iface ::
  "GoLib \<Rightarrow> IPAddressValidationPlugin \<Rightarrow> ValidationPlugin" where
  "IPAddressValidationPlugin_iface lib p =
     \<lparr>Validate = IPAddressValidationPlugin_Validate lib p, Name = IPAddressValidationPlugin_Name p\<rparr>"

definition loadBuiltInPlugins :: "GoLib \<Rightarrow> ValidationPlugin list" where
  "loadBuiltInPlugins lib =
     [URLValidationPlugin_iface lib
        \<lparr>URLValidationPlugin.Key = ''API_URL'', AllowedSchemes = [''https'']\<rparr>,
      EnumValidationPlugin_iface lib
        \<lparr>EnumValidationPlugin.Key = ''ENVIRONMENT'',
         AllowedValues = [''DEVELOPMENT'', ''STAGING'', ''PRODUCTION''],
         CaseSensitive = True\<rparr>,
      BooleanValidationPlugin_iface lib
        \<lparr>BooleanValidationPlugin.Key = ''ENABLE_DEBUG'',
         AcceptedValues = [''true'', ''false'', ''1'', ''0'', ''yes'', ''no''],
         Standardize = True\<rparr>,
      IPAddressValidationPlugin_iface lib
        \<lparr>IPAddressValidationPlugin.Key = ''TRUSTED_PROXY_IP'',
         AllowedIPVersions = [''IPv4'', ''IPv6''],
         MustBePrivate = True\<rparr>]"

text \<open>\<open>reqKeys[key] = false\<close> for each required key, in order.\<close>

definition NewValidator :: "GoLib \<Rightarrow> Config \<Rightarrow> string list \<Rightarrow> Validator" where
  "NewValidator lib cfg required =
     (let reqKeys = foldl (\<lambda>m key. AList.update key False m) [] required;
          builtInPlugins = loadBuiltInPlugins lib;
          allPlugins = builtInPlugins @ Plugins cfg
      in \<lparr>config = cfg, requiredKeys = reqKeys, plugins = allPlugins\<rparr>)"

section \<open>ValidateDotEnv\<close>

text \<open>
  The inner loop over \<open>v.plugins\<close> for one entry; \<open>i\<close> is the index of the first plugin of
  the list in \<open>v.plugins\<close>. It returns the error that ends the run, if any, and the
  events. Any non-nil error ends the run, whatever \<open>handled\<close> is.
\<close>

fun run_plugins ::
  "bool \<Rightarrow> string \<Rightarrow> string \<Rightarrow> nat \<Rightarrow> ValidationPlugin list \<Rightarrow> error option \<times> event list" where
  "run_plugins verbose key value i [] = (None, [])"
| "run_plugins verbose key value i (plugin # rest) =
     (case Validate plugin key value of
        (handled, Some err) \<Rightarrow>
          (Some err,
           [PluginCall i key value,
            if verbose
            then Logger_Errorf ''Validation error for key %s by %s: %v''
                   [ArgStr key, ArgStr (Name plugin), ArgErr err]
            else Logger_Errorf ''Validation error for key %s: %v'' [ArgStr key, ArgErr err]])
      | (handled, None) \<Rightarrow>
          (let (r, evs) = run_plugins verbose key value (Suc i) rest
           in (r, PluginCall i key value
                  # (if handled \<and> verbose
                     then [Logger_Infof ''  [Validated by: %s]'' [ArgStr (Name plugin)]]
                     else [])
                  @ evs)))"

text \<open>
  The outer loop over the entries, in the order \<open>range envVars\<close> visits them. It
  returns the error that ends the run, if any, the ledger and the events.
\<close>

fun process_entries ::
  "bool \<Rightarrow> ValidationPlugin list \<Rightarrow> (string \<times> bool) list \<Rightarrow> (string \<times> string) list
     \<Rightarrow> error option \<times> (string \<times> bool) list \<times> event list" where
  "process_entries verbose ps ledger [] = (None, ledger, [])"
| "process_entries verbose ps ledger ((key, value) # rest) =
     (let exists = (map_of ledger key \<noteq> None);
          ledger' = (if exists then AList.update key True ledger else ledger);
          evs1 = (if verbose
                  then [Logger_Infof ''Processing key: %s'' [ArgStr key],
                        if exists then Logger_Infof ''  %s is a required variable.'' [ArgStr key]
                        else Logger_Infof ''  %s is an optional variable.'' [ArgStr key]]
                  else [])
      in case run_plugins verbose key value 0 ps of
           (Some err, evs2) \<Rightarrow> (Some err, ledger', evs1 @ evs2)
         | (None, evs2) \<Rightarrow>
             (let (r, l, evs3) = process_entries verbose ps ledger' rest
              in (r, l, evs1 @ evs2 @ evs3)))"

text \<open>The final loop over \<open>v.requiredKeys\<close>: the keys whose flag is still false.\<close>

definition missingKeys :: "(string \<times> bool) list \<Rightarrow> string list" where
  "missingKeys ledger = map fst (filter (\<lambda>(key, found). \<not> found) ledger)"

text \<open>
  \<open>loadEnvFile\<close> returns what \<open>godotenv.Read\<close> returns: an error, or the entries of the
  file. \<open>godotenv.Read\<close> reads the file system and is a parameter.
\<close>

definition loadEnvFile ::
  "(string \<Rightarrow> error + (string \<times> string) list) \<Rightarrow> string \<Rightarrow> error + (string \<times> string) list" where
  "loadEnvFile godotenv_Read filePath =
     (case godotenv_Read filePath of Inl err \<Rightarrow> Inl err | Inr envMap \<Rightarrow> Inr envMap)"

text \<open>
  \<open>ValidateDotEnv\<close> returns the error (\<open>None\<close> for \<open>nil\<close>), the validator as the call
  leaves it (the method has a pointer receiver and writes \<open>v.config.Logger\<close> and
  \<open>v.requiredKeys\<close>), and the events.
\<close>

definition ValidateDotEnv ::
  "(string \<Rightarrow> error + (string \<times> string) list) \<Rightarrow> Validator \<Rightarrow> string
     \<Rightarrow> error option \<times> Validator \<times> event list" where
  "ValidateDotEnv godotenv_Read v filePath =
     (let cfg = config v;
          v1 = (if Logger cfg = None
                then v\<lparr>config := cfg\<lparr>Logger := Some (if Verbose cfg then DebugLevel else InfoLevel)\<rparr>\<rparr>
                else v);
          evs0 = (if Verbose cfg
                  then [Logger_Infof ''Validator Configuration:'' [],
                        Logger_Infof ''  RequireQuotes: %v'' [ArgBool (RequireQuotes cfg)],
                        Logger_Infof ''  Verbose: %v'' [ArgBool (Verbose cfg)],
                        Logger_Infof ''  Number of Plugins: %d'' [ArgInt (int (length (plugins v)))],
                        Logger_Infof ''End of Configuration'' []]
                  else [])
                 @ [Logger_Infof ''Starting validation for file: %s'' [ArgStr filePath]]
      in case loadEnvFile godotenv_Read filePath of
           Inl err \<Rightarrow> (Some (Errorf ''failed to load .env file: %w'' [ArgErr err]), v1, evs0)
         | Inr envVars \<Rightarrow>
             (case process_entries (Verbose cfg) (plugins v) (requiredKeys v) envVars of
                (Some err, ledger, evs1) \<Rightarrow> (Some err, v1\<lparr>requiredKeys := ledger\<rparr>, evs0 @ evs1)
              | (None, ledger, evs1) \<Rightarrow>
                  (let missing = missingKeys ledger
                   in if length missing > 0
                      then (let errMsg = ''missing required keys: '' @ fmt_v_strings missing
                            in (Some (Errorf errMsg []), v1\<lparr>requiredKeys := ledger\<rparr>,
                                evs0 @ evs1 @ [Logger_Error errMsg]))
                      else (None, v1\<lparr>requiredKeys := ledger\<rparr>,
                            evs0 @ evs1 @ [Logger_Infof ''.env file is valid.'' []]))))"

section \<open>A library instance for concrete runs\<close>

text \<open>
  To evaluate the plugins on concrete inputs a library is needed. \<open>ascii_lib\<close> is one
  that does on the ASCII inputs of the examples what the Go library does on them:
  lower-casing and folding of the letters A..Z, trimming of ASCII white space, and the
  parse results of the address, block and URL literals that the examples use. It
  instantiates the theorems at concrete inputs; no general statement refers to it.
\<close>

definition isUpperASCII :: "char \<Rightarrow> bool" where
  "isUpperASCII c = (let n = of_char c :: nat in 65 \<le> n \<and> n \<le> 90)"

definition toLowerByte :: "char \<Rightarrow> char" where
  "toLowerByte c =
     (if isUpperASCII c
      then (case c of Char b0 b1 b2 b3 b4 b5 b6 b7 \<Rightarrow> Char b0 b1 b2 b3 b4 True b6 b7)
      else c)"

definition ascii_ToLower :: "string \<Rightarrow> string" where
  "ascii_ToLower s = map toLowerByte s"

definition asciiSpace :: "char \<Rightarrow> bool" where
  "asciiSpace c = (let n = of_char c :: nat in (9 \<le> n \<and> n \<le> 13) \<or> n = 32)"

definition ascii_TrimSpace :: "string \<Rightarrow> string" where
  "ascii_TrimSpace s = rev (dropWhile asciiSpace (rev (dropWhile asciiSpace s)))"

definition ascii_EqualFold :: "string \<Rightarrow> string \<Rightarrow> bool" where
  "ascii_EqualFold s t = (ascii_ToLower s = ascii_ToLower t)"

definition example_ParseIP :: "string \<Rightarrow> IP option" where
  "example_ParseIP s =
     (if s = ''192.168.1.100'' then Some (IPv4 192 168 1 100)
      else if s = ''8.8.8.8'' then Some (IPv4 8 8 8 8)
      else if s = ''10.1.2.3'' then Some (IPv4 10 1 2 3)
      else if s = ''::1'' then Some [0, 0, 0, 0, 0, 0, 0, 0, 0, 0, 0, 0, 0, 0, 0, 1]
      else None)"

definition example_ParseCIDR :: "string \<Rightarrow> IPNet" where
  "example_ParseCIDR s =
     (if s = ''10.0.0.0/8'' then \<lparr>IP = [10, 0, 0, 0], Mask = [0xff, 0, 0, 0]\<rparr>
      else if s = ''172.16.0.0/12'' then \<lparr>IP = [172, 16, 0, 0], Mask = [0xff, 0xf0, 0, 0]\<rparr>
      else if s = ''192.168.0.0/16'' then \<lparr>IP = [192, 168, 0, 0], Mask = [0xff, 0xff, 0, 0]\<rparr>
      else if s = ''::1/128''
      then \<lparr>IP = [0, 0, 0, 0, 0, 0, 0, 0, 0, 0, 0, 0, 0, 0, 0, 1],
            Mask = [0xff, 0xff, 0xff, 0xff, 0xff, 0xff, 0xff, 0xff,
                    0xff, 0xff, 0xff, 0xff, 0xff, 0xff, 0xff, 0xff]\<rparr>
      else if s = ''fc00::/7''
      then \<lparr>IP = [0xfc, 0, 0, 0, 0, 0, 0, 0, 0, 0, 0, 0, 0, 0, 0, 0],
            Mask = [0xfe, 0, 0, 0, 0, 0, 0, 0, 0, 0, 0, 0, 0, 0, 0, 0]\<rparr>
      else \<lparr>IP = [], Mask = []\<rparr>)"

definition example_url_Parse :: "string \<Rightarrow> URL option" where
  "example_url_Parse s =
     (if s = ''https://api.example.com'' then Some \<lparr>Scheme = ''https'', Host = ''api.example.com''\<rparr>
      else if s = ''http://api.example.com'' then Some \<lparr>Scheme = ''http'', Host = ''api.example.com''\<rparr>
      else if s = ''ftp://x'' then Some \<lparr>Scheme = ''ftp'', Host = ''x''\<rparr>
      else if s = ''not-a-url'' then Some \<lparr>Scheme = [], Host = []\<rparr>
      else None)"

definition ascii_lib :: GoLib where
  "ascii_lib =
     \<lparr>strings_ToLower = ascii_ToLower, strings_TrimSpace = ascii_TrimSpace,
      strings_EqualFold = ascii_EqualFold, net_ParseIP = example_ParseIP,
      net_ParseCIDR = example_ParseCIDR, url_Parse = example_url_Parse\<rparr>"

section \<open>Properties of the plugins\<close>

lemma boolean_valid_iff:
  "boolean_valid lib nv xs \<longleftrightarrow> (\<exists>l \<in> set xs. nv = strings_ToLower lib l)"
  by (induction xs) auto

lemma enum_match_iff:
  "enum_match lib cs v xs \<longleftrightarrow> (\<exists>a \<in> set xs. if cs then v = a else strings_EqualFold lib v a)"
  by (induction xs) auto

lemma ascii_lib_simps:
  "strings_ToLower ascii_lib = ascii_ToLower"
  "strings_TrimSpace ascii_lib = ascii_TrimSpace"
  "strings_EqualFold ascii_lib = ascii_EqualFold"
  "net_ParseIP ascii_lib = example_ParseIP"
  "net_ParseCIDR ascii_lib = example_ParseCIDR"
  "url_Parse ascii_lib = example_url_Parse"
  by (simp_all add: ascii_lib_def)

lemmas ascii_eval = ascii_lib_simps ascii_ToLower_def ascii_TrimSpace_def ascii_EqualFold_def
  toLowerByte_def isUpperASCII_def asciiSpace_def

text \<open>
  C6. The Boolean policy with target key \<open>K\<close> and accepted literals \<open>L\<close> does not handle
  any other key (handled = false, no error). For key \<open>K\<close> it is handled, and the value is
  accepted exactly when its trimmed, lower-cased form equals the lower-cased form of some
  literal of \<open>L\<close>; otherwise it is rejected with the "must be a boolean" error. This holds
  for every library. With \<open>L = [true, false, 1, 0, yes, no]\<close>, and a library that leaves
  the lower-case ASCII words \<open>true\<close>, \<open>false\<close>, \<open>1\<close>, \<open>0\<close>, \<open>yes\<close>, \<open>no\<close>, \<open>maybe\<close> unchanged
  when lower-casing and trimming them (as Go's does), \<open>true\<close> is accepted and \<open>maybe\<close> is
  rejected.
\<close>

theorem BooleanValidationPlugin_Validate_spec:
  "(key \<noteq> BooleanValidationPlugin.Key p \<longrightarrow>
      BooleanValidationPlugin_Validate lib p key value = (False, None))
   \<and> (key = BooleanValidationPlugin.Key p \<longrightarrow>
      BooleanValidationPlugin_Validate lib p key value =
        (if \<exists>l \<in> set (AcceptedValues p).
              strings_ToLower lib (strings_TrimSpace lib value) = strings_ToLower lib l
         then (True, None)
         else (True, Some (Errorf ''value for key %q must be a boolean (accepted values: %v)''
                             [ArgStr key, ArgStrs (AcceptedValues p)]))))
   \<and> (strings_TrimSpace lib ''true'' = ''true'' \<and> strings_TrimSpace lib ''maybe'' = ''maybe''
        \<and> (\<forall>w \<in> set [''true'', ''false'', ''1'', ''0'', ''yes'', ''no'', ''maybe''].
              strings_ToLower lib w = w)
      \<longrightarrow>
        BooleanValidationPlugin_Validate lib
          \<lparr>BooleanValidationPlugin.Key = K,
           AcceptedValues = [''true'', ''false'', ''1'', ''0'', ''yes'', ''no''],
           Standardize = s\<rparr> K ''true'' = (True, None)
        \<and> BooleanValidationPlugin_Validate lib
          \<lparr>BooleanValidationPlugin.Key = K,
           AcceptedValues = [''true'', ''false'', ''1'', ''0'', ''yes'', ''no''],
           Standardize = s\<rparr> K ''maybe''
         = (True, Some (Errorf ''value for key %q must be a boolean (accepted values: %v)''
                          [ArgStr K, ArgStrs [''true'', ''false'', ''1'', ''0'', ''yes'', ''no'']])))"
  by (simp add: BooleanValidationPlugin_Validate_def boolean_valid_iff)

theorem BooleanValidationPlugin_Validate_spec_witness:
  "BooleanValidationPlugin_Validate ascii_lib
     \<lparr>BooleanValidationPlugin.Key = ''ENABLE_DEBUG'',
      AcceptedValues = [''true'', ''false'', ''1'', ''0'', ''yes'', ''no''],
      Standardize = True\<rparr> ''ENABLE_DEBUG'' '' Yes '' = (True, None)
   \<and> BooleanValidationPlugin_Validate ascii_lib
     \<lparr>BooleanValidationPlugin.Key = ''ENABLE_DEBUG'',
      AcceptedValues = [''true'', ''false'', ''1'', ''0'', ''yes'', ''no''],
      Standardize = True\<rparr> ''ENABLE_DEBUG'' ''maybe''
     = (True, Some (Errorf ''value for key %q must be a boolean (accepted values: %v)''
                [ArgStr ''ENABLE_DEBUG'', ArgStrs [''true'', ''false'', ''1'', ''0'', ''yes'', ''no'']]))"
  using BooleanValidationPlugin_Validate_spec
      [of "''ENABLE_DEBUG''"
          "\<lparr>BooleanValidationPlugin.Key = ''ENABLE_DEBUG'',
            AcceptedValues = [''true'', ''false'', ''1'', ''0'', ''yes'', ''no''],
            Standardize = True\<rparr>" ascii_lib "'' Yes ''" "''ENABLE_DEBUG''" True]
  by (simp add: ascii_eval)

text \<open>
  C10. The \<open>Standardize\<close> flag of the Boolean policy has no effect on what \<open>Validate\<close>
  returns: for every library, key and value the (handled, error) pair is the same with
  the flag set and with it cleared.
\<close>

theorem BooleanValidationPlugin_Standardize_inert:
  "BooleanValidationPlugin_Validate lib (p\<lparr>Standardize := True\<rparr>) key value
     = BooleanValidationPlugin_Validate lib (p\<lparr>Standardize := False\<rparr>) key value"
  by (simp add: BooleanValidationPlugin_Validate_def)

text \<open>
  C7. The Enum policy with target key \<open>K\<close>, allowed values \<open>A\<close> and a case-sensitivity
  flag does not handle any other key. For key \<open>K\<close> the value is accepted exactly when it
  matches some element of \<open>A\<close>: equality when the flag is set, \<open>strings.EqualFold\<close>
  otherwise; every other value is rejected with the "must be one of" error. This holds
  for every library. With \<open>A = [DEVELOPMENT, STAGING, PRODUCTION]\<close>, case-sensitive,
  \<open>PRODUCTION\<close> is accepted, \<open>production\<close> and \<open>INVALID_ENV\<close> are rejected.
\<close>

theorem EnumValidationPlugin_Validate_spec:
  "(key \<noteq> EnumValidationPlugin.Key p \<longrightarrow>
      EnumValidationPlugin_Validate lib p key value = (False, None))
   \<and> (key = EnumValidationPlugin.Key p \<longrightarrow>
      EnumValidationPlugin_Validate lib p key value =
        (if \<exists>a \<in> set (AllowedValues p).
              if CaseSensitive p then value = a else strings_EqualFold lib value a
         then (True, None)
         else (True, Some (Errorf ''value for key %q must be one of %v''
                             [ArgStr key, ArgStrs (AllowedValues p)]))))
   \<and> EnumValidationPlugin_Validate lib
        \<lparr>EnumValidationPlugin.Key = K,
         AllowedValues = [''DEVELOPMENT'', ''STAGING'', ''PRODUCTION''],
         CaseSensitive = True\<rparr> K ''PRODUCTION'' = (True, None)
   \<and> EnumValidationPlugin_Validate lib
        \<lparr>EnumValidationPlugin.Key = K,
         AllowedValues = [''DEVELOPMENT'', ''STAGING'', ''PRODUCTION''],
         CaseSensitive = True\<rparr> K ''production''
       = (True, Some (Errorf ''value for key %q must be one of %v''
                        [ArgStr K, ArgStrs [''DEVELOPMENT'', ''STAGING'', ''PRODUCTION'']]))
   \<and> EnumValidationPlugin_Validate lib
        \<lparr>EnumValidationPlugin.Key = K,
         AllowedValues = [''DEVELOPMENT'', ''STAGING'', ''PRODUCTION''],
         CaseSensitive = True\<rparr> K ''INVALID_ENV''
       = (True, Some (Errorf ''value for key %q must be one of %v''
                        [ArgStr K, ArgStrs [''DEVELOPMENT'', ''STAGING'', ''PRODUCTION'']]))"
  by (simp add: EnumValidationPlugin_Validate_def enum_match_iff)

theorem EnumValidationPlugin_Validate_spec_witness:
  "EnumValidationPlugin_Validate ascii_lib
     \<lparr>EnumValidationPlugin.Key = ''ENVIRONMENT'',
      AllowedValues = [''DEVELOPMENT'', ''STAGING'', ''PRODUCTION''],
      CaseSensitive = False\<rparr> ''ENVIRONMENT'' ''Staging'' = (True, None)"
  using EnumValidationPlugin_Validate_spec
      [of "''ENVIRONMENT''"
          "\<lparr>EnumValidationPlugin.Key = ''ENVIRONMENT'',
            AllowedValues = [''DEVELOPMENT'', ''STAGING'', ''PRODUCTION''],
            CaseSensitive = False\<rparr>" ascii_lib "''Staging''" "''K''"]
  by (simp add: ascii_eval)

end
